theory Spec2Isabelle
  imports Complex_Main
begin

section \<open>Supervised execution of an external tool (merc/run_process.py)\<close>

text \<open>
  The module runs a tool as a child process, relays its merged output line by line to a
  callback of the caller, and polls the child from a second thread that enforces a ceiling
  on the elapsed time and on the resident memory.  Python floats are modelled by exact
  rationals, Python's unbounded integers by \<open>int\<close>.  Everything the code learns from the
  operating system (what \<open>Popen\<close> raises, what the child prints, what each poll of the
  watchdog sees, which processes are alive when the tree is killed, how long a sleep
  really lasts) is an explicit input, so that a theorem quantified over these inputs holds
  for every schedule of the two threads.
\<close>

subsection \<open>Exceptions\<close>

text \<open>
  The four exception classes of the module and the library exceptions the code meets.
  \<open>ToolRuntimeError\<close> carries the three values interpolated into its message
  \<open>f"Tool {tool} {arguments} ended with return code {proc.returncode}"\<close>.
\<close>

datatype exn =
    FileNotFoundError
  | PermissionError
  | NoSuchProcess
  | AssertionError
  | OtherError string
  | ToolNotFoundError string
  | TimeExceededError string rat rat
  | MemoryExceededError string rat rat
  | ToolRuntimeError string "string list" int

subsection \<open>kill_all\<close>

type_synonym pid = nat

text \<open>
  What the operating system shows while a process tree is killed: the list returned by
  \<open>process.children(recursive=True)\<close>, the set of processes alive at that moment, and,
  for each iteration of the loop, the processes that die on their own just before it.
\<close>

record os_view =
  descendants :: "pid list"
  alive :: "pid set"
  vanish :: "pid set list"

text \<open>\<open>p.kill()\<close>: the signal is unconditional; a process that is gone raises.\<close>

definition kill :: "pid \<Rightarrow> pid set \<Rightarrow> exn option \<times> pid set" where
  "kill p live = (if p \<in> live then (None, live - {p}) else (Some NoSuchProcess, live))"

text \<open>The loop \<open>for p in children: try: p.kill() except psutil.NoSuchProcess: pass\<close>.\<close>

fun kill_each :: "pid list \<Rightarrow> pid set list \<Rightarrow> pid set \<Rightarrow> exn option \<times> pid set" where
  "kill_each [] vs live = (None, live)"
| "kill_each (p # ps) vs live =
     (let live1 = live - (case vs of [] \<Rightarrow> {} | v # _ \<Rightarrow> v) in
      case kill p live1 of
        (None, live2) \<Rightarrow> kill_each ps (tl vs) live2
      | (Some e, live2) \<Rightarrow>
          if e = NoSuchProcess then kill_each ps (tl vs) live2 else (Some e, live2))"

text \<open>
  \<open>psutil.wait_procs(children)\<close> without a timeout returns once every process of the list
  is gone, with an empty list of survivors; while one of them lives it does not return
  (\<open>None\<close>).
\<close>

definition wait_procs :: "pid list \<Rightarrow> pid set \<Rightarrow> (pid list \<times> pid list) option" where
  "wait_procs procs live =
     (if filter (\<lambda>p. p \<in> live) procs = [] then Some (procs, []) else None)"

definition kill_all :: "pid \<Rightarrow> os_view \<Rightarrow> (exn option \<times> pid set) option" where
  "kill_all process v =
     (let children = descendants v @ [process] in
      case kill_each children (vanish v) (alive v) of
        (Some e, live') \<Rightarrow> Some (Some e, live')
      | (None, live') \<Rightarrow>
          (case wait_procs children live' of
             None \<Rightarrow> None
           | Some (gone, still_alive) \<Rightarrow>
               if still_alive \<noteq> [] then Some (Some AssertionError, live')
               else Some (None, live')))"

subsection \<open>The watchdog: enforce_limits\<close>

text \<open>
  The request: tool, arguments and the two ceilings (seconds, megabytes).  The environment
  mapping \<open>env\<close> is handed to \<open>Popen\<close> as it is and plays no other part.
\<close>

record config =
  tool :: string
  arguments :: "string list"
  max_time :: int
  max_memory :: int

text \<open>
  The object under construction: the class attributes \<open>stdout\<close>, \<open>stderr\<close>,
  \<open>returncode\<close> and the instance attributes \<open>_user_time\<close>, \<open>_max_memory_used\<close>.
\<close>

record run_process =
  stdout :: string
  stderr :: string
  returncode :: int
  user_time :: rat
  max_memory_used :: rat

definition class_defaults :: run_process where
  "class_defaults =
     \<lparr>stdout = '''', stderr = '''', returncode = - 1, user_time = 0, max_memory_used = 0\<rparr>"

text \<open>
  One look of the watchdog at the child: \<open>proc.returncode\<close> is set (\<open>Exited\<close>),
  \<open>memory_info()\<close> raises \<open>NoSuchProcess\<close> (\<open>Gone\<close>), or it returns a resident set
  size in bytes; the second argument of \<open>Sample\<close> is the time in nanoseconds by which the
  following \<open>time.sleep(0.1)\<close> oversleeps.
\<close>

datatype poll = Exited | Gone | Sample int nat

text \<open>The monotonic clock counts nanoseconds; \<open>time.perf_counter()\<close> reads it in seconds.\<close>

definition perf_counter :: "nat \<Rightarrow> rat" where
  "perf_counter clk = of_nat clk / 1000000000"

definition sleep_tenth :: "nat \<Rightarrow> nat \<Rightarrow> nat" where
  "sleep_tenth over clk = clk + 100000000 + over"

definition rss_mb :: "int \<Rightarrow> rat" where
  "rss_mb rss = of_int rss / 1024 / 1024"

datatype tick_result =
    Continue run_process nat
  | Return run_process nat
  | Raise exn run_process nat "pid set"
  | Hang

text \<open>
  What follows a crossed ceiling: \<open>kill_all(process)\<close> and then the \<open>raise\<close>.  The
  enclosing \<open>except psutil.NoSuchProcess\<close> would swallow that exception of \<open>kill_all\<close>.
\<close>

definition kill_then_raise :: "pid \<Rightarrow> os_view \<Rightarrow> exn \<Rightarrow> run_process \<Rightarrow> nat \<Rightarrow> tick_result" where
  "kill_then_raise process v e self clk =
     (case kill_all process v of
        None \<Rightarrow> Hang
      | Some (Some e', live') \<Rightarrow>
          if e' = NoSuchProcess then Return self clk else Raise e' self clk live'
      | Some (None, live') \<Rightarrow> Raise e self clk live')"

text \<open>One iteration of \<open>while proc.returncode is None\<close>, statements in source order.\<close>

definition tick :: "config \<Rightarrow> pid \<Rightarrow> os_view \<Rightarrow> poll \<Rightarrow> run_process \<Rightarrow> nat \<Rightarrow> tick_result" where
  "tick c process v p self clk =
     (case p of
        Exited \<Rightarrow> Return self clk
      | Gone \<Rightarrow> Return self clk
      | Sample rss over \<Rightarrow>
          (let self1 = self\<lparr>max_memory_used := max (max_memory_used self) (rss_mb rss)\<rparr> in
           if max_memory_used self1 > of_int (max_memory c) then
             kill_then_raise process v
               (MemoryExceededError (tool c) (max_memory_used self1) (of_int (max_memory c)))
               self1 clk
           else if user_time self1 > of_int (max_time c) then
             kill_then_raise process v
               (TimeExceededError (tool c) (user_time self1) (of_int (max_time c)))
               self1 clk
           else Continue (self1\<lparr>user_time := user_time self1 + 1 / 10\<rparr>) (sleep_tenth over clk)))"

text \<open>
  What the thread leaves behind: the exception stored in the future, the object, the clock,
  and two observations kept for the theorems: the object after each poll, and the
  processes left alive by \<open>kill_all\<close> when it ran.
\<close>

record wd_result =
  wd_exn :: "exn option"
  wd_self :: run_process
  wd_clock :: nat
  wd_hist :: "run_process list"
  wd_live :: "pid set option"

lemma tick_Continue:
  assumes "tick c process v p self clk = Continue self' clk'"
  shows "user_time self \<le> of_int (max_time c) \<and> user_time self' = user_time self + 1 / 10"
  using assms
  by (auto simp: tick_def kill_then_raise_def Let_def
      split: poll.splits if_splits option.splits prod.splits)

function enforce_loop ::
  "config \<Rightarrow> pid \<Rightarrow> os_view \<Rightarrow> (nat \<Rightarrow> poll) \<Rightarrow> nat \<Rightarrow> run_process \<Rightarrow> nat \<Rightarrow> run_process list
     \<Rightarrow> wd_result option" where
  "enforce_loop c process v polls i self clk hist =
     (case tick c process v (polls i) self clk of
        Continue self' clk' \<Rightarrow> enforce_loop c process v polls (Suc i) self' clk' (hist @ [self'])
      | Return self' clk' \<Rightarrow>
          Some \<lparr>wd_exn = None, wd_self = self', wd_clock = clk', wd_hist = hist @ [self'],
                wd_live = None\<rparr>
      | Raise e self' clk' live' \<Rightarrow>
          Some \<lparr>wd_exn = Some e, wd_self = self', wd_clock = clk', wd_hist = hist @ [self'],
                wd_live = Some live'\<rparr>
      | Hang \<Rightarrow> None)"
  by pat_completeness auto
termination
proof (relation "measure (\<lambda>(c, process, v, polls, i, self, clk, hist).
          nat \<lceil>(of_int (max_time c) - user_time self) * 10 + 1\<rceil>)", goal_cases)
  case 1
  show ?case by simp
next
  case (2 c process v polls i self clk hist self' clk')
  from tick_Continue[OF 2]
  have le: "user_time self \<le> of_int (max_time c)"
    and eq: "user_time self' = user_time self + 1 / 10" by simp_all
  let ?x = "(of_int (max_time c) - user_time self) * 10"
  have "0 \<le> ?x" using le by simp
  then have c0: "0 \<le> \<lceil>?x\<rceil>" by simp
  have new: "(of_int (max_time c) - user_time self') * 10 + 1 = ?x" using eq by simp
  have old: "\<lceil>?x + 1\<rceil> = \<lceil>?x\<rceil> + 1" by simp
  have "nat \<lceil>(of_int (max_time c) - user_time self') * 10 + 1\<rceil> < nat \<lceil>?x + 1\<rceil>"
    unfolding new old using c0 by linarith
  then show ?case by simp
qed

subsection \<open>The output relay\<close>

text \<open>
  The caller's callback: it may change state of its own and it may raise.  The state it
  leaves behind is kept in both cases, as a Python closure keeps what it has written.
\<close>

type_synonym 's callback = "string \<Rightarrow> 's \<Rightarrow> exn option \<times> 's"

text \<open>\<open>line.rstrip("\n")\<close> removes every trailing line feed.\<close>

definition rstrip_nl :: "string \<Rightarrow> string" where
  "rstrip_nl line = rev (dropWhile (\<lambda>ch. ch = CHR 0x0A) (rev line))"

text \<open>
  \<open>for line in proc.stdout: if read_stdout: read_stdout(line.rstrip("\n"))\<close>.  The last
  argument records the arguments of the calls made so far.
\<close>

fun relay ::
  "'s callback option \<Rightarrow> string list \<Rightarrow> 's \<Rightarrow> string list \<Rightarrow> exn option \<times> 's \<times> string list" where
  "relay read_stdout [] s calls = (None, s, calls)"
| "relay read_stdout (line # rest) s calls =
     (case read_stdout of
        None \<Rightarrow> relay read_stdout rest s calls
      | Some f \<Rightarrow>
          (case f (rstrip_nl line) s of
             (Some x, s') \<Rightarrow> (Some x, s', calls @ [rstrip_nl line])
           | (None, s') \<Rightarrow> relay read_stdout rest s' (calls @ [rstrip_nl line])))"

subsection \<open>The supervisor: RunProcess.__init__\<close>

text \<open>
  One execution as the operating system presents it: what \<open>subprocess.Popen\<close> raises (if
  anything) and how long the spawn takes, the pid of the child, the lines that iterating
  \<open>proc.stdout\<close> yields, whether \<open>psutil.Process(proc.pid)\<close> finds the child, what the
  polls of the watchdog see, the process tree at the time of a kill, the exit code, and the
  time between the end of the watchdog and the second reading of the clock.
\<close>

record env =
  spawn :: "exn option"
  spawn_ns :: nat
  child :: pid
  stdout_lines :: "string list"
  acquire :: bool
  polls :: "nat \<Rightarrow> poll"
  os :: os_view
  exit_code :: int
  join_ns :: nat

text \<open>
  The object once the child is spawned, after \<open>self._user_time = 0\<close> and
  \<open>self._max_memory_used = 0\<close>.
\<close>

definition self0 :: run_process where
  "self0 = class_defaults\<lparr>user_time := 0, max_memory_used := 0\<rparr>"

text \<open>
  The thread body: \<open>psutil.Process(proc.pid)\<close>, then the loop; \<open>NoSuchProcess\<close> ends the
  thread without an exception.
\<close>

definition enforce_limits :: "config \<Rightarrow> env \<Rightarrow> run_process \<Rightarrow> nat \<Rightarrow> wd_result option" where
  "enforce_limits c e self clk =
     (if acquire e then enforce_loop c (child e) (os e) (polls e) 0 self clk []
      else Some \<lparr>wd_exn = None, wd_self = self, wd_clock = clk, wd_hist = [], wd_live = None\<rparr>)"

text \<open>\<open>except FileNotFoundError as e: raise ToolNotFoundError(tool) from e\<close>\<close>

definition except_FileNotFoundError :: "config \<Rightarrow> exn \<Rightarrow> exn" where
  "except_FileNotFoundError c x = (if x = FileNotFoundError then ToolNotFoundError (tool c) else x)"

text \<open>
  The result of a call: the exception that leaves the constructor or the constructed
  object, the state of the callback and the arguments it was called with, and what the
  watchdog thread left behind (\<open>None\<close> when it was never started).
\<close>

record 's run_out =
  outcome :: "exn + run_process"
  cb_state :: 's
  cb_calls :: "string list"
  watchdog :: "wd_result option"

text \<open>
  The constructor of merc/run_process.py.  The executor joins the watchdog thread whatever
  leaves its block, so a watchdog that does not return keeps the call from returning
  (\<open>None\<close>).  An exception of the callback leaves the block before \<open>future.result()\<close> is
  reached: the exception stored in the future is then never raised.
\<close>

definition RunProcess ::
  "config \<Rightarrow> 's callback option \<Rightarrow> env \<Rightarrow> 's \<Rightarrow> nat \<Rightarrow> 's run_out option" where
  "RunProcess c read_stdout e s clk =
     (let before = perf_counter clk in
      case spawn e of
        Some x \<Rightarrow>
          Some \<lparr>outcome = Inl (except_FileNotFoundError c x), cb_state = s, cb_calls = [],
                watchdog = None\<rparr>
      | None \<Rightarrow>
          (case enforce_limits c e self0 (clk + spawn_ns e) of
             None \<Rightarrow> None
           | Some wd \<Rightarrow>
               (case relay read_stdout (stdout_lines e) s [] of
                  (Some x, s', calls) \<Rightarrow>
                    Some \<lparr>outcome = Inl (except_FileNotFoundError c x), cb_state = s',
                          cb_calls = calls, watchdog = Some wd\<rparr>
                | (None, s', calls) \<Rightarrow>
                    (case wd_exn wd of
                       Some x \<Rightarrow>
                         Some \<lparr>outcome = Inl (except_FileNotFoundError c x), cb_state = s',
                               cb_calls = calls, watchdog = Some wd\<rparr>
                     | None \<Rightarrow>
                         (let self1 = (wd_self wd)
                                \<lparr>user_time := perf_counter (wd_clock wd + join_ns e) - before\<rparr> in
                          if exit_code e \<noteq> 0 then
                            Some \<lparr>outcome = Inl (except_FileNotFoundError c
                                     (ToolRuntimeError (tool c) (arguments c) (exit_code e))),
                                  cb_state = s', cb_calls = calls, watchdog = Some wd\<rparr>
                          else
                            Some \<lparr>outcome = Inr self1, cb_state = s', cb_calls = calls,
                                  watchdog = Some wd\<rparr>)))))"

text \<open>
  The constructor of the top-level run_process.py, which has no callback:
  \<open>proc.communicate()\<close> collects the whole output, the object keeps it together with the
  return code, and no clock is read.  (Its \<open>print(self.stderr)\<close> before the
  \<open>ToolRuntimeError\<close> changes nothing of the result.)
\<close>

definition RunProcess_buffered :: "config \<Rightarrow> env \<Rightarrow> nat \<Rightarrow> (exn + run_process) option" where
  "RunProcess_buffered c e clk =
     (case spawn e of
        Some x \<Rightarrow> Some (Inl (except_FileNotFoundError c x))
      | None \<Rightarrow>
          (case enforce_limits c e self0 (clk + spawn_ns e) of
             None \<Rightarrow> None
           | Some wd \<Rightarrow>
               (case wd_exn wd of
                  Some x \<Rightarrow> Some (Inl (except_FileNotFoundError c x))
                | None \<Rightarrow>
                    (let self1 = (wd_self wd)\<lparr>stdout := concat (stdout_lines e)\<rparr>;
                         self2 = self1\<lparr>returncode := exit_code e\<rparr> in
                     if exit_code e \<noteq> 0 then
                       Some (Inl (except_FileNotFoundError c
                                (ToolRuntimeError (tool c) (arguments c) (exit_code e))))
                     else Some (Inr self2)))))"

subsection \<open>Example executions\<close>

text \<open>
  A child with pid 5 whose descendants 6 and 7 are listed when the tree is killed; 7 dies
  on its own before the first signal is sent, and process 8 does not belong to the tree.
\<close>

definition demo_tree :: os_view where
  "demo_tree = \<lparr>descendants = [6, 7], alive = {5, 6, 7, 8}, vanish = [{7}]\<rparr>"

definition demo_config :: "int \<Rightarrow> int \<Rightarrow> config" where
  "demo_config t m =
     \<lparr>tool = ''python'', arguments = [''-c'', ''work''], max_time = t, max_memory = m\<rparr>"

text \<open>Poll streams: the same observation for ever, or a finite prefix and then one for ever.\<close>

definition always :: "poll \<Rightarrow> nat \<Rightarrow> poll" where
  "always p i = p"

definition polls_then :: "poll list \<Rightarrow> poll \<Rightarrow> nat \<Rightarrow> poll" where
  "polls_then ps p i = (if i < length ps then ps ! i else p)"

text \<open>An execution that spawns, with the given polls, output lines and exit code.\<close>

definition demo_env :: "(nat \<Rightarrow> poll) \<Rightarrow> string list \<Rightarrow> int \<Rightarrow> env" where
  "demo_env ps ls rc =
     \<lparr>spawn = None, spawn_ns = 2000000, child = 5, stdout_lines = ls, acquire = True,
      polls = ps, os = demo_tree, exit_code = rc, join_ns = 50000\<rparr>"

text \<open>
  Three polls that find the child alive with 1, 3 and 2 MB, then its return code is set.
\<close>

definition demo_polls :: "nat \<Rightarrow> poll" where
  "demo_polls = polls_then [Sample 1048576 1000000, Sample 3145728 0, Sample 2097152 500000] Exited"

text \<open>The callback of the tests: it appends the line to a list.\<close>

definition collect :: "string list callback" where
  "collect line acc = (None, acc @ [line])"

text \<open>A callback that opens the file named by the line; the file \<open>missing.txt\<close> does not exist.\<close>

definition open_named_file :: "nat callback" where
  "open_named_file line n =
     (if line = ''missing.txt'' then (Some FileNotFoundError, Suc n) else (None, Suc n))"

definition demo_lines :: "string list" where
  "demo_lines = [''0'' @ [CHR 0x0A], ''1'' @ [CHR 0x0A], ''2'']"

text \<open>The lines of a child that prints three file names, the last without a line feed.\<close>

definition demo_files :: "string list" where
  "demo_files = [''present.txt'' @ [CHR 0x0A], ''missing.txt'' @ [CHR 0x0A], ''later.txt'']"

subsection \<open>The poll as the specification words it\<close>


subsection \<open>Notions used in the statements\<close>

text \<open>The processes left alive by \<open>kill_all\<close>.\<close>

definition survivors :: "pid \<Rightarrow> os_view \<Rightarrow> pid set" where
  "survivors process v =
     alive v - set (descendants v) - {process}
       - \<Union>(set (take (Suc (length (descendants v))) (vanish v)))"

text \<open>Neither the tracked time nor the tracked peak memory of \<open>a\<close> exceeds that of \<open>b\<close>.\<close>

definition le_usage :: "run_process \<Rightarrow> run_process \<Rightarrow> bool" where
  "le_usage a b = (user_time a \<le> user_time b \<and> max_memory_used a \<le> max_memory_used b)"



section \<open>Properties\<close>

subsection \<open>Killing the process tree\<close>

lemma kill_each_exact:
  "kill_each ps vs live = (None, live - set ps - \<Union>(set (take (length ps) vs)))"
proof (induction ps arbitrary: vs live)
  case Nil
  show ?case by simp
next
  case (Cons p ps)
  show ?case
  proof (cases vs)
    case Nil
    then show ?thesis using Cons.IH[of "[]"] by (auto simp: kill_def Let_def)
  next
    case (Cons v vs')
    then show ?thesis using Cons.IH[of vs'] by (auto simp: kill_def Let_def)
  qed
qed

lemma wait_procs_dead:
  "set procs \<inter> live = {} \<Longrightarrow> wait_procs procs live = Some (procs, [])"
  by (auto simp: wait_procs_def filter_empty_conv)

lemma kill_all_exact: "kill_all process v = Some (None, survivors process v)"
proof -
  let ?ch = "descendants v @ [process]"
  let ?live' = "alive v - set ?ch - \<Union>(set (take (length ?ch) (vanish v)))"
  have ke: "kill_each ?ch (vanish v) (alive v) = (None, ?live')" by (rule kill_each_exact)
  have "set ?ch \<inter> ?live' = {}" by auto
  then have wp: "wait_procs ?ch ?live' = Some (?ch, [])" by (rule wait_procs_dead)
  have "kill_all process v = Some (None, ?live')"
    unfolding kill_all_def Let_def ke using wp by simp
  moreover have "?live' = survivors process v" by (auto simp: survivors_def)
  ultimately show ?thesis by simp
qed

lemma kill_then_raise_eq:
  "kill_then_raise process v x self clk = Raise x self clk (survivors process v)"
  by (simp add: kill_then_raise_def kill_all_exact)

subsection \<open>One poll and the polling loop\<close>

lemma tick_Sample:
  "tick c process v (Sample rss over) self clk =
     (let m = max (max_memory_used self) (rss_mb rss) in
      if of_int (max_memory c) < m then
        Raise (MemoryExceededError (tool c) m (of_int (max_memory c)))
          (self\<lparr>max_memory_used := m\<rparr>) clk (survivors process v)
      else if of_int (max_time c) < user_time self then
        Raise (TimeExceededError (tool c) (user_time self) (of_int (max_time c)))
          (self\<lparr>max_memory_used := m\<rparr>) clk (survivors process v)
      else Continue (self\<lparr>max_memory_used := m, user_time := user_time self + 1 / 10\<rparr>)
             (sleep_tenth over clk))"
  by (simp add: tick_def Let_def kill_then_raise_eq)

lemma tick_Exited: "tick c process v Exited self clk = Return self clk"
  by (simp add: tick_def)

lemma tick_Gone: "tick c process v Gone self clk = Return self clk"
  by (simp add: tick_def)

lemma tick_never_hangs: "tick c process v p self clk \<noteq> Hang"
  by (cases p) (simp_all add: tick_Sample tick_Exited tick_Gone Let_def)


lemma enforce_loop_returns: "\<exists>wd. enforce_loop c process v ps i self clk hist = Some wd"
proof (induction c process v ps i self clk hist rule: enforce_loop.induct)
  case (1 c process v ps i self clk hist)
  show ?case
  proof (cases "tick c process v (ps i) self clk")
    case (Continue self' clk')
    then show ?thesis using 1[OF Continue] by (subst enforce_loop.simps) simp
  next
    case (Return self' clk')
    then show ?thesis by (subst enforce_loop.simps) simp
  next
    case (Raise x self' clk' live')
    then show ?thesis by (subst enforce_loop.simps) simp
  next
    case Hang
    then show ?thesis using tick_never_hangs by blast
  qed
qed



subsection \<open>The supervisor\<close>

lemma RunProcess_watchdog:
  "RunProcess c cb e s clk = Some r \<Longrightarrow> watchdog r = Some wd \<Longrightarrow>
   enforce_limits c e self0 (clk + spawn_ns e) = Some wd"
  by (auto simp: RunProcess_def self0_def Let_def split: option.splits prod.splits if_splits)

lemma enforce_limits_returns: "\<exists>wd. enforce_limits c e self clk = Some wd"
  using enforce_loop_returns by (simp add: enforce_limits_def)

lemma RunProcess_spawn_fails:
  "spawn e = Some x \<Longrightarrow>
   RunProcess c cb e s clk =
     Some \<lparr>outcome = Inl (except_FileNotFoundError c x), cb_state = s, cb_calls = [],
           watchdog = None\<rparr>"
  by (simp add: RunProcess_def)

lemma RunProcess_spawned:
  assumes "spawn e = None"
    and "enforce_limits c e self0 (clk + spawn_ns e) = Some wd"
    and "relay cb (stdout_lines e) s [] = (rx, s', calls)"
  shows "RunProcess c cb e s clk =
     Some \<lparr>outcome =
             (case rx of
                Some x \<Rightarrow> Inl (except_FileNotFoundError c x)
              | None \<Rightarrow>
                  (case wd_exn wd of
                     Some x \<Rightarrow> Inl (except_FileNotFoundError c x)
                   | None \<Rightarrow>
                       if exit_code e \<noteq> 0 then
                         Inl (ToolRuntimeError (tool c) (arguments c) (exit_code e))
                       else
                         Inr ((wd_self wd)\<lparr>user_time :=
                                perf_counter (wd_clock wd + join_ns e) - perf_counter clk\<rparr>))),
           cb_state = s', cb_calls = calls, watchdog = Some wd\<rparr>"
  using assms
  by (simp add: RunProcess_def self0_def Let_def except_FileNotFoundError_def
      split: option.splits)

lemma RunProcess_returns: "\<exists>r. RunProcess c cb e s clk = Some r"
proof (cases "spawn e")
  case None
  obtain wd where wd: "enforce_limits c e self0 (clk + spawn_ns e) = Some wd"
    using enforce_limits_returns by blast
  obtain rx s' calls where rl: "relay cb (stdout_lines e) s [] = (rx, s', calls)"
    by (cases "relay cb (stdout_lines e) s []") auto
  show ?thesis by (simp add: RunProcess_spawned[OF None wd rl])
next
  case (Some x)
  then show ?thesis by (simp add: RunProcess_spawn_fails)
qed

lemma tick_Raise_exn:
  assumes "tick c process v p self clk = Raise x self' clk' live'"
  shows "(x = MemoryExceededError (tool c) (max_memory_used self') (of_int (max_memory c))
          \<and> of_int (max_memory c) < max_memory_used self')
       \<or> (x = TimeExceededError (tool c) (user_time self') (of_int (max_time c))
          \<and> of_int (max_time c) < user_time self'
          \<and> max_memory_used self' \<le> of_int (max_memory c))"
  using assms
  by (cases p) (auto simp: tick_Sample tick_Exited tick_Gone Let_def split: if_splits)

lemma enforce_loop_exn:
  "enforce_loop c process v ps i self clk hist = Some wd \<Longrightarrow> wd_exn wd = Some x \<Longrightarrow>
   (x = MemoryExceededError (tool c) (max_memory_used (wd_self wd)) (of_int (max_memory c))
      \<and> of_int (max_memory c) < max_memory_used (wd_self wd))
   \<or> (x = TimeExceededError (tool c) (user_time (wd_self wd)) (of_int (max_time c))
      \<and> of_int (max_time c) < user_time (wd_self wd)
      \<and> max_memory_used (wd_self wd) \<le> of_int (max_memory c))"
proof (induction c process v ps i self clk hist rule: enforce_loop.induct)
  case (1 c process v ps i self clk hist)
  show ?case
  proof (cases "tick c process v (ps i) self clk")
    case (Continue self' clk')
    then show ?thesis using 1 by (subst (asm) (2) enforce_loop.simps) simp
  next
    case (Return self' clk')
    then show ?thesis using 1(2,3) by (subst (asm) enforce_loop.simps) auto
  next
    case (Raise y self' clk' live')
    then show ?thesis using 1(2,3) tick_Raise_exn[OF Raise]
      by (subst (asm) enforce_loop.simps) auto
  next
    case Hang
    then show ?thesis using tick_never_hangs by blast
  qed
qed

lemma enforce_limits_exn:
  "enforce_limits c e self clk = Some wd \<Longrightarrow> wd_exn wd = Some x \<Longrightarrow>
   (x = MemoryExceededError (tool c) (max_memory_used (wd_self wd)) (of_int (max_memory c))
      \<and> of_int (max_memory c) < max_memory_used (wd_self wd))
   \<or> (x = TimeExceededError (tool c) (user_time (wd_self wd)) (of_int (max_time c))
      \<and> of_int (max_time c) < user_time (wd_self wd)
      \<and> max_memory_used (wd_self wd) \<le> of_int (max_memory c))"
  using enforce_loop_exn[of c "child e" "os e" "polls e" 0 self clk "[]" wd x]
  by (auto simp: enforce_limits_def split: if_splits)

text \<open>The watchdog writes only the two instance attributes.\<close>

lemma tick_class_attributes:
  "tick c process v p self clk = Continue self' clk' \<or>
   tick c process v p self clk = Return self' clk' \<or>
   tick c process v p self clk = Raise x self' clk' live' \<Longrightarrow>
   stdout self' = stdout self \<and> stderr self' = stderr self \<and> returncode self' = returncode self"
  by (cases p) (auto simp: tick_Sample tick_Exited tick_Gone Let_def split: if_splits)

lemma enforce_loop_class_attributes:
  "enforce_loop c process v ps i self clk hist = Some wd \<Longrightarrow>
   stdout (wd_self wd) = stdout self \<and> stderr (wd_self wd) = stderr self
   \<and> returncode (wd_self wd) = returncode self"
proof (induction c process v ps i self clk hist rule: enforce_loop.induct)
  case (1 c process v ps i self clk hist)
  show ?case
  proof (cases "tick c process v (ps i) self clk")
    case (Continue self' clk')
    then show ?thesis using 1 tick_class_attributes[of c process v "ps i" self clk self' clk']
      by (subst (asm) (2) enforce_loop.simps) simp
  next
    case (Return self' clk')
    then show ?thesis using 1(2) tick_class_attributes[of c process v "ps i" self clk self' clk']
      by (subst (asm) enforce_loop.simps) auto
  next
    case (Raise y self' clk' live')
    then show ?thesis
      using 1(2) tick_class_attributes[of c process v "ps i" self clk self' clk' y live']
      by (subst (asm) enforce_loop.simps) auto
  next
    case Hang
    then show ?thesis using tick_never_hangs by blast
  qed
qed

lemma enforce_limits_class_attributes:
  "enforce_limits c e self clk = Some wd \<Longrightarrow>
   stdout (wd_self wd) = stdout self \<and> stderr (wd_self wd) = stderr self
   \<and> returncode (wd_self wd) = returncode self"
  using enforce_loop_class_attributes[of c "child e" "os e" "polls e" 0 self clk "[]" wd]
  by (auto simp: enforce_limits_def split: if_splits)

lemma RunProcess_Inr:
  assumes "RunProcess c cb e s clk = Some r" and "outcome r = Inr obj"
  shows "\<exists>wd. spawn e = None \<and> enforce_limits c e self0 (clk + spawn_ns e) = Some wd
           \<and> watchdog r = Some wd \<and> wd_exn wd = None \<and> exit_code e = 0
           \<and> fst (relay cb (stdout_lines e) s []) = None
           \<and> obj = (wd_self wd)\<lparr>user_time :=
                      perf_counter (wd_clock wd + join_ns e) - perf_counter clk\<rparr>"
  using assms
  by (auto simp: RunProcess_def self0_def Let_def split: option.splits prod.splits if_splits)

lemma perf_counter_mono: "a \<le> b \<Longrightarrow> perf_counter a \<le> perf_counter b"
  by (simp add: perf_counter_def divide_right_mono)

lemma perf_counter_sleep:
  "perf_counter (sleep_tenth over clk) = perf_counter clk + 1 / 10 + of_nat over / 1000000000"
  by (simp add: perf_counter_def sleep_tenth_def add_divide_distrib)

lemma perf_counter_sleep_ge: "perf_counter clk + 1 / 10 \<le> perf_counter (sleep_tenth over clk)"
  by (simp add: perf_counter_sleep)

lemma sleep_tenth_ge: "clk \<le> sleep_tenth over clk"
  by (simp add: sleep_tenth_def)

lemma tick_clock_Continue:
  assumes "tick c process v p self clk = Continue self' clk'"
  shows "user_time self' = user_time self + 1 / 10
         \<and> perf_counter clk + 1 / 10 \<le> perf_counter clk' \<and> clk \<le> clk'"
proof (cases p)
  case (Sample rss over)
  then have "clk' = sleep_tenth over clk" and "user_time self' = user_time self + 1 / 10"
    using assms by (auto simp: tick_Sample Let_def split: if_splits)
  then show ?thesis using perf_counter_sleep_ge[of clk over] sleep_tenth_ge[of clk over] by simp
qed (use assms in \<open>simp_all add: tick_Exited tick_Gone\<close>)

lemma tick_clock_Return:
  "tick c process v p self clk = Return self' clk' \<Longrightarrow> self' = self \<and> clk' = clk"
  by (cases p) (auto simp: tick_Sample tick_Exited tick_Gone Let_def split: if_splits)

lemma tick_clock_Raise:
  "tick c process v p self clk = Raise x self' clk' live' \<Longrightarrow>
     user_time self' = user_time self \<and> clk' = clk"
  by (cases p) (auto simp: tick_Sample tick_Exited tick_Gone Let_def split: if_splits)

lemma enforce_loop_clock:
  "enforce_loop c process v ps i self clk hist = Some wd \<Longrightarrow>
   user_time (wd_self wd) - user_time self \<le> perf_counter (wd_clock wd) - perf_counter clk
   \<and> clk \<le> wd_clock wd"
proof (induction c process v ps i self clk hist rule: enforce_loop.induct)
  case (1 c process v ps i self clk hist)
  show ?case
  proof (cases "tick c process v (ps i) self clk")
    case (Continue self' clk')
    have "enforce_loop c process v ps (Suc i) self' clk' (hist @ [self']) = Some wd"
      using 1(2) Continue by (subst (asm) enforce_loop.simps) simp
    from 1(1)[OF Continue this] tick_clock_Continue[OF Continue]
    show ?thesis by linarith
  next
    case (Return self' clk')
    then show ?thesis using 1(2) tick_clock_Return[OF Return]
      by (subst (asm) enforce_loop.simps) auto
  next
    case (Raise y self' clk' live')
    then show ?thesis using 1(2) tick_clock_Raise[OF Raise]
      by (subst (asm) enforce_loop.simps) auto
  next
    case Hang
    then show ?thesis using tick_never_hangs by blast
  qed
qed

lemma enforce_limits_clock:
  "enforce_limits c e self clk = Some wd \<Longrightarrow>
   user_time (wd_self wd) - user_time self \<le> perf_counter (wd_clock wd) - perf_counter clk
   \<and> clk \<le> wd_clock wd"
  using enforce_loop_clock[of c "child e" "os e" "polls e" 0 self clk "[]" wd]
  by (auto simp: enforce_limits_def split: if_splits)

text \<open>The polled time never exceeds the time measured around the whole execution.\<close>

lemma polled_le_wall_clock:
  assumes "enforce_limits c e self0 (clk + spawn_ns e) = Some wd"
  shows "user_time (wd_self wd) \<le> perf_counter (wd_clock wd + join_ns e) - perf_counter clk"
proof -
  have "user_time (wd_self wd) - user_time self0
          \<le> perf_counter (wd_clock wd) - perf_counter (clk + spawn_ns e)"
    using enforce_limits_clock[OF assms] by simp
  moreover have "user_time self0 = 0" by (simp add: self0_def)
  moreover have "perf_counter clk \<le> perf_counter (clk + spawn_ns e)"
    by (rule perf_counter_mono) simp
  moreover have "perf_counter (wd_clock wd) \<le> perf_counter (wd_clock wd + join_ns e)"
    by (rule perf_counter_mono) simp
  ultimately show ?thesis by linarith
qed

subsection \<open>The relay loop\<close>






lemma relay_no_callback: "relay None lines s calls0 = (None, s, calls0)"
  by (induction lines) simp_all



subsection \<open>Resource accounting never decreases\<close>

lemma le_usage_refl: "le_usage a a"
  by (simp add: le_usage_def)

lemma le_usage_trans: "le_usage a b \<Longrightarrow> le_usage b c \<Longrightarrow> le_usage a c"
  by (auto simp: le_usage_def)

lemma tick_le_usage:
  "tick c process v p self clk = Continue self' clk' \<Longrightarrow> le_usage self self'"
  "tick c process v p self clk = Return self' clk' \<Longrightarrow> le_usage self self'"
  "tick c process v p self clk = Raise x self' clk' live' \<Longrightarrow> le_usage self self'"
  by (cases p; auto simp: tick_Sample tick_Exited tick_Gone Let_def le_usage_def
        split: if_splits)+

lemma sorted_wrt_snoc_le_usage:
  assumes "sorted_wrt le_usage hist" and "\<forall>h \<in> set hist. le_usage h self"
    and "le_usage self self'"
  shows "sorted_wrt le_usage (hist @ [self']) \<and> (\<forall>h \<in> set (hist @ [self']). le_usage h self')"
  using assms by (auto simp: sorted_wrt_append le_usage_refl intro: le_usage_trans)

lemma enforce_loop_hist:
  "enforce_loop c process v ps i self clk hist = Some wd \<Longrightarrow>
   sorted_wrt le_usage hist \<Longrightarrow> \<forall>h \<in> set hist. le_usage h self \<Longrightarrow>
   sorted_wrt le_usage (wd_hist wd) \<and> (\<forall>h \<in> set (wd_hist wd). le_usage h (wd_self wd))"
proof (induction c process v ps i self clk hist rule: enforce_loop.induct)
  case (1 c process v ps i self clk hist)
  show ?case
  proof (cases "tick c process v (ps i) self clk")
    case (Continue self' clk')
    have run: "enforce_loop c process v ps (Suc i) self' clk' (hist @ [self']) = Some wd"
      using "1.prems"(1) Continue by (subst (asm) enforce_loop.simps) simp
    note s = sorted_wrt_snoc_le_usage[OF "1.prems"(2,3) tick_le_usage(1)[OF Continue]]
    show ?thesis by (rule "1.IH"[OF Continue run s[THEN conjunct1] s[THEN conjunct2]])
  next
    case (Return self' clk')
    note s = sorted_wrt_snoc_le_usage[OF "1.prems"(2,3) tick_le_usage(2)[OF Return]]
    have "wd_hist wd = hist @ [self']" "wd_self wd = self'"
      using "1.prems"(1) Return by (subst (asm) enforce_loop.simps, auto)+
    then show ?thesis using s by simp
  next
    case (Raise y self' clk' live')
    note s = sorted_wrt_snoc_le_usage[OF "1.prems"(2,3) tick_le_usage(3)[OF Raise]]
    have "wd_hist wd = hist @ [self']" "wd_self wd = self'"
      using "1.prems"(1) Raise by (subst (asm) enforce_loop.simps, auto)+
    then show ?thesis using s by simp
  next
    case Hang
    then show ?thesis using tick_never_hangs by blast
  qed
qed

lemma enforce_limits_hist:
  assumes "enforce_limits c e self clk = Some wd"
  shows "sorted_wrt le_usage (wd_hist wd) \<and> (\<forall>h \<in> set (wd_hist wd). le_usage h (wd_self wd))"
proof (cases "acquire e")
  case True
  then have "enforce_loop c (child e) (os e) (polls e) 0 self clk [] = Some wd"
    using assms by (simp add: enforce_limits_def)
  from enforce_loop_hist[OF this] show ?thesis by simp
next
  case False
  then show ?thesis using assms by (auto simp: enforce_limits_def)
qed

subsection \<open>Where the polling loop stops\<close>















subsection \<open>The example executions, evaluated\<close>

lemma demo_survivors: "survivors 5 demo_tree = {8}"
  by (auto simp: survivors_def demo_tree_def)


lemma demo_normal_watchdog:
  "enforce_limits (demo_config 10 10) (demo_env demo_polls ls rc) self0 2000000
   = Some \<lparr>wd_exn = None,
           wd_self = self0\<lparr>user_time := 3 / 10, max_memory_used := 3\<rparr>,
           wd_clock = 303500000,
           wd_hist = [self0\<lparr>user_time := 1 / 10, max_memory_used := 1\<rparr>,
                      self0\<lparr>user_time := 2 / 10, max_memory_used := 3\<rparr>,
                      self0\<lparr>user_time := 3 / 10, max_memory_used := 3\<rparr>,
                      self0\<lparr>user_time := 3 / 10, max_memory_used := 3\<rparr>],
           wd_live = None\<rparr>"
  by (simp add: enforce_limits_def demo_env_def demo_config_def demo_polls_def polls_then_def
      tick_Sample tick_Exited rss_mb_def sleep_tenth_def Let_def self0_def class_defaults_def)

lemma demo_relay_collect:
  "relay (Some collect) demo_lines [] [] = (None, [''0'', ''1'', ''2''], [''0'', ''1'', ''2''])"
  by (simp add: demo_lines_def collect_def rstrip_nl_def)

lemma demo_relay_open:
  "relay (Some open_named_file) demo_files 0 []
   = (Some FileNotFoundError, 2, [''present.txt'', ''missing.txt''])"
  by (simp add: open_named_file_def demo_files_def rstrip_nl_def)

lemma demo_time_run:
  "enforce_limits (demo_config 0 10) (demo_env (always (Sample 1048576 0)) ls rc) self0 clk
   = Some \<lparr>wd_exn = Some (TimeExceededError ''python'' (1 / 10) 0),
           wd_self = self0\<lparr>user_time := 1 / 10, max_memory_used := 1\<rparr>,
           wd_clock = clk + 100000000,
           wd_hist = [self0\<lparr>user_time := 1 / 10, max_memory_used := 1\<rparr>,
                      self0\<lparr>user_time := 1 / 10, max_memory_used := 1\<rparr>],
           wd_live = Some {8}\<rparr>"
  by (simp add: enforce_limits_def demo_env_def demo_config_def always_def
      tick_Sample rss_mb_def sleep_tenth_def Let_def self0_def class_defaults_def demo_survivors)

lemma demo_normal_run:
  "RunProcess (demo_config 10 10) (Some collect) (demo_env demo_polls demo_lines 0) [] 0
   = Some \<lparr>outcome = Inr \<lparr>stdout = '''', stderr = '''', returncode = - 1,
                           user_time = 6071 / 20000, max_memory_used = 3\<rparr>,
           cb_state = [''0'', ''1'', ''2''], cb_calls = [''0'', ''1'', ''2''],
           watchdog = Some \<lparr>wd_exn = None,
             wd_self = self0\<lparr>user_time := 3 / 10, max_memory_used := 3\<rparr>,
             wd_clock = 303500000,
             wd_hist = [self0\<lparr>user_time := 1 / 10, max_memory_used := 1\<rparr>,
                        self0\<lparr>user_time := 2 / 10, max_memory_used := 3\<rparr>,
                        self0\<lparr>user_time := 3 / 10, max_memory_used := 3\<rparr>,
                        self0\<lparr>user_time := 3 / 10, max_memory_used := 3\<rparr>],
             wd_live = None\<rparr>\<rparr>"
proof -
  let ?e = "demo_env demo_polls demo_lines 0"
  have sp: "spawn ?e = None" by (simp add: demo_env_def)
  have wd: "enforce_limits (demo_config 10 10) ?e self0 (0 + spawn_ns ?e) = Some
      \<lparr>wd_exn = None,
             wd_self = self0\<lparr>user_time := 3 / 10, max_memory_used := 3\<rparr>,
             wd_clock = 303500000,
             wd_hist = [self0\<lparr>user_time := 1 / 10, max_memory_used := 1\<rparr>,
                        self0\<lparr>user_time := 2 / 10, max_memory_used := 3\<rparr>,
                        self0\<lparr>user_time := 3 / 10, max_memory_used := 3\<rparr>,
                        self0\<lparr>user_time := 3 / 10, max_memory_used := 3\<rparr>],
             wd_live = None\<rparr>"
    using demo_normal_watchdog[of demo_lines 0] by (simp add: demo_env_def)
  have rl: "relay (Some collect) (stdout_lines ?e) [] []
      = (None, [''0'', ''1'', ''2''], [''0'', ''1'', ''2''])"
    using demo_relay_collect by (simp add: demo_env_def)
  have "exit_code ?e = 0" "join_ns ?e = 50000" by (simp_all add: demo_env_def)
  then show ?thesis
    unfolding RunProcess_spawned[OF sp wd rl]
    by (simp add: perf_counter_def self0_def class_defaults_def)
qed







section \<open>The claims\<close>













text \<open>
  C6, as far as the code goes.  In every execution whose child is spawned, whose relay
  loop ends, whose watchdog ends without an exception and whose exit code is 0, the
  constructor returns an object; its time is the clock reading after the watchdog was
  joined minus the reading before the spawn, its peak memory is the one tracked by the
  watchdog.  The attribute \<open>returncode\<close> of that object is still the class default -1:
  merc/run_process.py never assigns it.  The top-level run_process.py assigns
  \<open>self.returncode = proc.returncode\<close>, and its object carries the exit code 0.
\<close>

theorem successful_run_keeps_default_returncode:
  assumes "spawn e = None"
    and "relay cb (stdout_lines e) s [] = (None, s', calls)"
    and "enforce_limits c e self0 (clk + spawn_ns e) = Some wd"
    and "wd_exn wd = None"
    and "exit_code e = 0"
  shows "RunProcess c cb e s clk =
           Some \<lparr>outcome = Inr \<lparr>stdout = '''', stderr = '''', returncode = - 1,
                     user_time = perf_counter (wd_clock wd + join_ns e) - perf_counter clk,
                     max_memory_used = max_memory_used (wd_self wd)\<rparr>,
                 cb_state = s', cb_calls = calls, watchdog = Some wd\<rparr>
         \<and> RunProcess_buffered c e clk =
           Some (Inr \<lparr>stdout = concat (stdout_lines e), stderr = '''', returncode = 0,
                     user_time = user_time (wd_self wd),
                     max_memory_used = max_memory_used (wd_self wd)\<rparr>)"
proof -
  have attrs: "stdout (wd_self wd) = '''' \<and> stderr (wd_self wd) = ''''
               \<and> returncode (wd_self wd) = - 1"
    using enforce_limits_class_attributes[OF assms(3)]
    by (simp add: self0_def class_defaults_def)
  have 1: "RunProcess c cb e s clk =
           Some \<lparr>outcome = Inr \<lparr>stdout = '''', stderr = '''', returncode = - 1,
                     user_time = perf_counter (wd_clock wd + join_ns e) - perf_counter clk,
                     max_memory_used = max_memory_used (wd_self wd)\<rparr>,
                 cb_state = s', cb_calls = calls, watchdog = Some wd\<rparr>"
    using assms(4,5) attrs by (simp add: RunProcess_spawned[OF assms(1,3,2)])
  have 2: "RunProcess_buffered c e clk =
           Some (Inr \<lparr>stdout = concat (stdout_lines e), stderr = '''', returncode = 0,
                     user_time = user_time (wd_self wd),
                     max_memory_used = max_memory_used (wd_self wd)\<rparr>)"
    using assms(1,3,4,5) attrs by (simp add: RunProcess_buffered_def self0_def Let_def)
  show ?thesis using 1 2 by simp
qed

theorem successful_run_keeps_default_returncode_witness:
  "RunProcess (demo_config 10 10) (Some collect) (demo_env demo_polls demo_lines 0) [] 0
   = Some \<lparr>outcome = Inr \<lparr>stdout = '''', stderr = '''', returncode = - 1,
                           user_time = 6071 / 20000, max_memory_used = 3\<rparr>,
           cb_state = [''0'', ''1'', ''2''], cb_calls = [''0'', ''1'', ''2''],
           watchdog = Some \<lparr>wd_exn = None,
             wd_self = self0\<lparr>user_time := 3 / 10, max_memory_used := 3\<rparr>,
             wd_clock = 303500000,
             wd_hist = [self0\<lparr>user_time := 1 / 10, max_memory_used := 1\<rparr>,
                        self0\<lparr>user_time := 2 / 10, max_memory_used := 3\<rparr>,
                        self0\<lparr>user_time := 3 / 10, max_memory_used := 3\<rparr>,
                        self0\<lparr>user_time := 3 / 10, max_memory_used := 3\<rparr>],
             wd_live = None\<rparr>\<rparr>
   \<and> RunProcess_buffered (demo_config 10 10) (demo_env demo_polls demo_lines 0) 0
   = Some (Inr \<lparr>stdout = [CHR ''0'', CHR 0x0A, CHR ''1'', CHR 0x0A, CHR ''2''], stderr = '''',
                returncode = 0, user_time = 3 / 10, max_memory_used = 3\<rparr>)"
proof -
  let ?e = "demo_env demo_polls demo_lines 0"
  let ?wd = "\<lparr>wd_exn = None,
             wd_self = self0\<lparr>user_time := 3 / 10, max_memory_used := 3\<rparr>,
             wd_clock = 303500000,
             wd_hist = [self0\<lparr>user_time := 1 / 10, max_memory_used := 1\<rparr>,
                        self0\<lparr>user_time := 2 / 10, max_memory_used := 3\<rparr>,
                        self0\<lparr>user_time := 3 / 10, max_memory_used := 3\<rparr>,
                        self0\<lparr>user_time := 3 / 10, max_memory_used := 3\<rparr>],
             wd_live = None\<rparr>"
  have sp: "spawn ?e = None" by (simp add: demo_env_def)
  have rl: "relay (Some collect) (stdout_lines ?e) [] []
      = (None, [''0'', ''1'', ''2''], [''0'', ''1'', ''2''])"
    using demo_relay_collect by (simp add: demo_env_def)
  have wd: "enforce_limits (demo_config 10 10) ?e self0 (0 + spawn_ns ?e) = Some ?wd"
    using demo_normal_watchdog[of demo_lines 0] by (simp add: demo_env_def)
  have x: "wd_exn ?wd = None" by simp
  have rc: "exit_code ?e = 0" by (simp add: demo_env_def)
  have "join_ns ?e = 50000" "stdout_lines ?e = demo_lines" by (simp_all add: demo_env_def)
  then show ?thesis
    using successful_run_keeps_default_returncode[OF sp rl wd x rc]
    by (simp add: perf_counter_def demo_lines_def)
qed

text \<open>
  C7.  Whenever the constructor of merc/run_process.py returns an object, the time it
  reports is the clock reading taken after the watchdog was joined minus the reading taken
  before the child was spawned.  It is not the sum of the polling intervals, which the
  watchdog leaves in the same attribute and which is at most as large.
\<close>

theorem reported_time_is_wall_clock:
  assumes "RunProcess c cb e s clk = Some r" and "outcome r = Inr obj"
  shows "\<exists>wd. watchdog r = Some wd
           \<and> user_time obj = perf_counter (wd_clock wd + join_ns e) - perf_counter clk
           \<and> clk + spawn_ns e \<le> wd_clock wd
           \<and> user_time (wd_self wd) \<le> user_time obj"
proof -
  from RunProcess_Inr[OF assms] obtain wd where
    wd: "enforce_limits c e self0 (clk + spawn_ns e) = Some wd"
    and w: "watchdog r = Some wd"
    and obj: "obj = (wd_self wd)\<lparr>user_time :=
                      perf_counter (wd_clock wd + join_ns e) - perf_counter clk\<rparr>"
    by blast
  have "user_time obj = perf_counter (wd_clock wd + join_ns e) - perf_counter clk"
    using obj by simp
  moreover have "clk + spawn_ns e \<le> wd_clock wd"
    using enforce_limits_clock[OF wd] by simp
  moreover have "user_time (wd_self wd) \<le> user_time obj"
    using polled_le_wall_clock[OF wd] obj by simp
  ultimately show ?thesis using w by blast
qed

theorem reported_time_is_wall_clock_witness:
  "\<exists>wd. watchdog \<lparr>outcome = Inr \<lparr>stdout = '''', stderr = '''', returncode = - 1,
                           user_time = 6071 / 20000, max_memory_used = 3\<rparr>,
           cb_state = [''0'', ''1'', ''2''], cb_calls = [''0'', ''1'', ''2''],
           watchdog = Some \<lparr>wd_exn = None,
             wd_self = self0\<lparr>user_time := 3 / 10, max_memory_used := 3\<rparr>,
             wd_clock = 303500000,
             wd_hist = [self0\<lparr>user_time := 1 / 10, max_memory_used := 1\<rparr>,
                        self0\<lparr>user_time := 2 / 10, max_memory_used := 3\<rparr>,
                        self0\<lparr>user_time := 3 / 10, max_memory_used := 3\<rparr>,
                        self0\<lparr>user_time := 3 / 10, max_memory_used := 3\<rparr>],
             wd_live = None\<rparr>\<rparr> = Some wd
      \<and> (6071 / 20000 :: rat) = perf_counter (wd_clock wd + 50000) - perf_counter 0
      \<and> user_time (wd_self wd) = 3 / 10"
proof -
  let ?obj = "\<lparr>stdout = '''', stderr = '''', returncode = - 1,
                           user_time = 6071 / 20000, max_memory_used = 3\<rparr>"
  have "outcome \<lparr>outcome = Inr ?obj,
           cb_state = [''0'', ''1'', ''2''], cb_calls = [''0'', ''1'', ''2''],
           watchdog = Some \<lparr>wd_exn = None,
             wd_self = self0\<lparr>user_time := 3 / 10, max_memory_used := 3\<rparr>,
             wd_clock = 303500000,
             wd_hist = [self0\<lparr>user_time := 1 / 10, max_memory_used := 1\<rparr>,
                        self0\<lparr>user_time := 2 / 10, max_memory_used := 3\<rparr>,
                        self0\<lparr>user_time := 3 / 10, max_memory_used := 3\<rparr>,
                        self0\<lparr>user_time := 3 / 10, max_memory_used := 3\<rparr>],
             wd_live = None\<rparr>\<rparr> = Inr ?obj" by simp
  from reported_time_is_wall_clock[OF demo_normal_run this]
  show ?thesis by (auto simp: demo_env_def)
qed

text \<open>
  C8 (as amended).  When \<open>subprocess.Popen\<close> raises, the constructor raises at once, the
  watchdog is never started and the callback is never called.  Only \<open>FileNotFoundError\<close>
  (the tool path does not exist) is turned into \<open>ToolNotFoundError\<close> naming the tool; any
  other exception of the spawn, such as the \<open>PermissionError\<close> raised for a file that
  exists but is not executable, leaves the constructor unchanged.
\<close>

theorem spawn_failure_no_activity:
  "spawn e = Some x \<Longrightarrow>
   RunProcess c cb e s clk =
     Some \<lparr>outcome = Inl (if x = FileNotFoundError then ToolNotFoundError (tool c) else x),
           cb_state = s, cb_calls = [], watchdog = None\<rparr>"
  by (simp add: RunProcess_spawn_fails except_FileNotFoundError_def)

theorem spawn_failure_no_activity_witness:
  "spawn ((demo_env demo_polls demo_lines 0)\<lparr>spawn := Some FileNotFoundError\<rparr>)
     = Some FileNotFoundError
   \<and> RunProcess (demo_config 10 10) (Some collect)
        ((demo_env demo_polls demo_lines 0)\<lparr>spawn := Some FileNotFoundError\<rparr>) [] 0
      = Some \<lparr>outcome = Inl (ToolNotFoundError ''python''), cb_state = [], cb_calls = [],
              watchdog = None\<rparr>"
  using spawn_failure_no_activity[of
      "(demo_env demo_polls demo_lines 0)\<lparr>spawn := Some FileNotFoundError\<rparr>"
      FileNotFoundError "demo_config 10 10" "Some collect" "[]" 0]
  by (simp add: demo_config_def)

text \<open>
  C8 as stated fails for a tool that exists but is not runnable: \<open>Popen\<close> raises
  \<open>PermissionError\<close>, which the handler does not catch, so the constructor raises
  \<open>PermissionError\<close> and not \<open>ToolNotFoundError\<close>.
\<close>

theorem not_runnable_counterexample:
  "RunProcess (demo_config 10 10) (Some collect)
     ((demo_env demo_polls demo_lines 0)\<lparr>spawn := Some PermissionError\<rparr>) [] 0
   = Some \<lparr>outcome = Inl PermissionError, cb_state = [], cb_calls = [], watchdog = None\<rparr>
   \<and> Inl PermissionError \<noteq> (Inl (ToolNotFoundError ''python'') :: exn + run_process)"
  by (simp add: RunProcess_def except_FileNotFoundError_def)

text \<open>
  C9.  In every execution the objects seen after the successive polls of the watchdog are
  ordered: neither the tracked time nor the tracked peak memory ever decreases from one
  poll to a later one.  What is finally reported is at least every polled value: the time
  and peak memory of the returned object, the time carried by a \<open>TimeExceededError\<close> and
  the memory carried by a \<open>MemoryExceededError\<close> of the watchdog.  For the time of the
  returned object, which is read from the clock, this rests on \<open>time.sleep(0.1)\<close> never
  returning early, as the clock of the model has it.
\<close>

theorem resource_accounting_never_decreases:
  assumes "RunProcess c cb e s clk = Some r" and "watchdog r = Some wd"
  shows "sorted_wrt le_usage (wd_hist wd)
       \<and> (\<forall>h \<in> set (wd_hist wd).
             (\<forall>obj. outcome r = Inr obj \<longrightarrow> le_usage h obj)
           \<and> (\<forall>n v m. wd_exn wd = Some (TimeExceededError n v m) \<longrightarrow> user_time h \<le> v)
           \<and> (\<forall>n v m. wd_exn wd = Some (MemoryExceededError n v m)
                 \<longrightarrow> max_memory_used h \<le> v))"
proof -
  have wd: "enforce_limits c e self0 (clk + spawn_ns e) = Some wd"
    by (rule RunProcess_watchdog[OF assms])
  note hist = enforce_limits_hist[OF wd]
  have each: "(\<forall>obj. outcome r = Inr obj \<longrightarrow> le_usage h obj)
           \<and> (\<forall>n v m. wd_exn wd = Some (TimeExceededError n v m) \<longrightarrow> user_time h \<le> v)
           \<and> (\<forall>n v m. wd_exn wd = Some (MemoryExceededError n v m)
                 \<longrightarrow> max_memory_used h \<le> v)"
    if h: "h \<in> set (wd_hist wd)" for h
  proof (intro conjI allI impI)
    have le: "le_usage h (wd_self wd)" using hist h by blast
    {
      fix obj assume "outcome r = Inr obj"
      from RunProcess_Inr[OF assms(1) this] assms(2)
      have obj: "obj = (wd_self wd)\<lparr>user_time :=
                      perf_counter (wd_clock wd + join_ns e) - perf_counter clk\<rparr>"
        by auto
      have "user_time (wd_self wd) \<le> user_time obj"
        using polled_le_wall_clock[OF wd] obj by simp
      then show "le_usage h obj" using le obj by (simp add: le_usage_def)
    next
      fix n v m assume "wd_exn wd = Some (TimeExceededError n v m)"
      from enforce_limits_exn[OF wd this] have "v = user_time (wd_self wd)" by simp
      then show "user_time h \<le> v" using le by (simp add: le_usage_def)
    next
      fix n v m assume "wd_exn wd = Some (MemoryExceededError n v m)"
      from enforce_limits_exn[OF wd this] have "v = max_memory_used (wd_self wd)" by simp
      then show "max_memory_used h \<le> v" using le by (simp add: le_usage_def)
    }
  qed
  show ?thesis
  proof (rule conjI)
    show "sorted_wrt le_usage (wd_hist wd)" by (rule hist[THEN conjunct1])
  qed (rule ballI, rule each)
qed

theorem resource_accounting_never_decreases_witness:
  "sorted_wrt le_usage
     [self0\<lparr>user_time := 1 / 10, max_memory_used := 1\<rparr>,
      self0\<lparr>user_time := 2 / 10, max_memory_used := 3\<rparr>,
      self0\<lparr>user_time := 3 / 10, max_memory_used := 3\<rparr>,
      self0\<lparr>user_time := 3 / 10, max_memory_used := 3\<rparr>]
   \<and> le_usage (self0\<lparr>user_time := 3 / 10, max_memory_used := 3\<rparr>)
        \<lparr>stdout = '''', stderr = '''', returncode = - 1,
         user_time = 6071 / 20000, max_memory_used = 3\<rparr>"
proof -
  let ?wd = "\<lparr>wd_exn = None,
             wd_self = self0\<lparr>user_time := 3 / 10, max_memory_used := 3\<rparr>,
             wd_clock = 303500000,
             wd_hist = [self0\<lparr>user_time := 1 / 10, max_memory_used := 1\<rparr>,
                        self0\<lparr>user_time := 2 / 10, max_memory_used := 3\<rparr>,
                        self0\<lparr>user_time := 3 / 10, max_memory_used := 3\<rparr>,
                        self0\<lparr>user_time := 3 / 10, max_memory_used := 3\<rparr>],
             wd_live = None\<rparr>"
  let ?obj = "\<lparr>stdout = '''', stderr = '''', returncode = - 1,
         user_time = 6071 / 20000, max_memory_used = 3\<rparr>"
  let ?r = "\<lparr>outcome = Inr ?obj,
           cb_state = [''0'', ''1'', ''2''], cb_calls = [''0'', ''1'', ''2''],
           watchdog = Some ?wd\<rparr>"
  have w: "watchdog ?r = Some ?wd" by simp
  note T = resource_accounting_never_decreases[OF demo_normal_run w]
  have 1: "sorted_wrt le_usage (wd_hist ?wd)" by (rule T[THEN conjunct1])
  have "self0\<lparr>user_time := 3 / 10, max_memory_used := 3\<rparr> \<in> set (wd_hist ?wd)" by simp
  from T[THEN conjunct2, THEN bspec, OF this]
  have "\<forall>obj. outcome ?r = Inr obj \<longrightarrow>
          le_usage (self0\<lparr>user_time := 3 / 10, max_memory_used := 3\<rparr>) obj" by (rule conjunct1)
  then have 2: "le_usage (self0\<lparr>user_time := 3 / 10, max_memory_used := 3\<rparr>) ?obj" by simp
  show ?thesis using 1 2 by simp
qed

text \<open>
  C10.  The handler \<open>except FileNotFoundError\<close> encloses the whole body of the
  constructor.  So in an execution whose tool was spawned and whose watchdog ran, a
  \<open>FileNotFoundError\<close> raised by the caller's callback leaves the constructor as
  \<open>ToolNotFoundError\<close> naming the tool.
\<close>

theorem callback_error_reported_as_tool_not_found:
  "spawn e = None \<Longrightarrow> relay cb (stdout_lines e) s [] = (Some FileNotFoundError, s', calls) \<Longrightarrow>
   \<exists>wd. RunProcess c cb e s clk =
          Some \<lparr>outcome = Inl (ToolNotFoundError (tool c)), cb_state = s', cb_calls = calls,
                watchdog = Some wd\<rparr>"
proof -
  assume sp: "spawn e = None"
    and rl: "relay cb (stdout_lines e) s [] = (Some FileNotFoundError, s', calls)"
  obtain wd where wd: "enforce_limits c e self0 (clk + spawn_ns e) = Some wd"
    using enforce_limits_returns by blast
  show ?thesis
    by (simp add: RunProcess_spawned[OF sp wd rl] except_FileNotFoundError_def)
qed

theorem callback_error_reported_as_tool_not_found_witness:
  "RunProcess (demo_config 0 10) (Some open_named_file)
     (demo_env (always (Sample 1048576 0)) demo_files 0) 0 0
   = Some \<lparr>outcome = Inl (ToolNotFoundError ''python''), cb_state = 2,
           cb_calls = [''present.txt'', ''missing.txt''],
           watchdog = Some \<lparr>wd_exn = Some (TimeExceededError ''python'' (1 / 10) 0),
             wd_self = self0\<lparr>user_time := 1 / 10, max_memory_used := 1\<rparr>,
             wd_clock = 102000000,
             wd_hist = [self0\<lparr>user_time := 1 / 10, max_memory_used := 1\<rparr>,
                        self0\<lparr>user_time := 1 / 10, max_memory_used := 1\<rparr>],
             wd_live = Some {8}\<rparr>\<rparr>"
proof -
  let ?c = "demo_config 0 10"
  let ?e = "demo_env (always (Sample 1048576 0)) demo_files 0"
  have sp: "spawn ?e = None" by (simp add: demo_env_def)
  have rl: "relay (Some open_named_file) (stdout_lines ?e) 0 []
            = (Some FileNotFoundError, 2, [''present.txt'', ''missing.txt''])"
    using demo_relay_open by (simp add: demo_env_def)
  from callback_error_reported_as_tool_not_found[OF sp rl, of ?c 0]
  obtain w where r: "RunProcess ?c (Some open_named_file) ?e 0 0 =
          Some \<lparr>outcome = Inl (ToolNotFoundError (tool ?c)), cb_state = 2,
                cb_calls = [''present.txt'', ''missing.txt''], watchdog = Some w\<rparr>"
    by blast
  have "enforce_limits ?c ?e self0 (0 + spawn_ns ?e) = Some w"
    by (rule RunProcess_watchdog[OF r]) simp
  then have "w = \<lparr>wd_exn = Some (TimeExceededError ''python'' (1 / 10) 0),
             wd_self = self0\<lparr>user_time := 1 / 10, max_memory_used := 1\<rparr>,
             wd_clock = 102000000,
             wd_hist = [self0\<lparr>user_time := 1 / 10, max_memory_used := 1\<rparr>,
                        self0\<lparr>user_time := 1 / 10, max_memory_used := 1\<rparr>],
             wd_live = Some {8}\<rparr>"
    using demo_time_run[of demo_files 0 "0 + spawn_ns ?e"] by (simp add: demo_env_def)
  then show ?thesis using r by (simp add: demo_config_def)
qed

end
